theory Spec2Isabelle
  imports Main "HOL-Library.AList" "HOL-Library.Sublist"
begin

section \<open>The host file system\<close>

text \<open>
  The cache of \<^verbatim>\<open>cache.hxx\<close> keeps every value in one file and reaches the disk through
  Boost.Filesystem (\<^verbatim>\<open>exists\<close>, \<^verbatim>\<open>create_directories\<close>, \<^verbatim>\<open>rename\<close>) and through
  \<^verbatim>\<open>std::ofstream\<close> / \<^verbatim>\<open>std::ifstream\<close>. A file name is modelled by the list of its
  components, relative to the working directory, as in the programs of the repository:
  \<^verbatim>\<open>"data/1/value.txt"\<close> is \<open>[''data'', ''1'', ''value.txt'']\<close>, and the empty list is the
  empty path \<^verbatim>\<open>""\<close>. The disk is a table from paths to nodes.
\<close>

datatype node = File string | Dir

type_synonym path = "string list"

type_synonym filesystem = "(path \<times> node) list"

text \<open>
  What stops an operation: an exception of Boost.Filesystem, which no member of the cache
  catches, or a call of a member that the class does not have.
\<close>

datatype error = filesystem_error | no_member string

definition parent_path :: "path \<Rightarrow> path" where
  "parent_path p = butlast p"

definition status :: "filesystem \<Rightarrow> path \<Rightarrow> node option" where
  "status fs p = (if p = [] then None else map_of fs p)"

definition fs_exists :: "filesystem \<Rightarrow> path \<Rightarrow> bool" where
  "fs_exists fs p \<longleftrightarrow> status fs p \<noteq> None"

definition is_directory :: "filesystem \<Rightarrow> path \<Rightarrow> bool" where
  "is_directory fs p \<longleftrightarrow> status fs p = Some Dir"

definition is_regular_file :: "filesystem \<Rightarrow> path \<Rightarrow> bool" where
  "is_regular_file fs p \<longleftrightarrow> (case status fs p of Some (File bytes) \<Rightarrow> True | _ \<Rightarrow> False)"

text \<open>A new name can be entered in \<open>p\<close> when \<open>p\<close> is a directory, or the working directory.\<close>

definition holds_entries :: "filesystem \<Rightarrow> path \<Rightarrow> bool" where
  "holds_entries fs p \<longleftrightarrow> p = [] \<or> is_directory fs p"

text \<open>
  \<^verbatim>\<open>std::ofstream file_handle(filename)\<close> creates the file, or empties it. What is written
  to the stream stays in the buffer of the stream and reaches the file when the stream is
  flushed; neither the cache nor \<^verbatim>\<open>OstreamOverload\<close> flushes, so that is when
  \<^verbatim>\<open>file_handle\<close> is destroyed, at the end of the function that declares it. When the file
  cannot be opened (no parent directory, or the name is a directory) the stream is in a
  failed state, nothing is written and nothing is thrown; the source never tests the stream.
\<close>

definition can_open_for_writing :: "filesystem \<Rightarrow> path \<Rightarrow> bool" where
  "can_open_for_writing fs p \<longleftrightarrow>
     p \<noteq> [] \<and> holds_entries fs (parent_path p) \<and> \<not> is_directory fs p"

definition ofstream_open :: "filesystem \<Rightarrow> path \<Rightarrow> bool \<times> filesystem" where
  "ofstream_open fs p =
     (if can_open_for_writing fs p then (True, AList.update p (File []) fs) else (False, fs))"

definition ofstream_close :: "bool \<Rightarrow> path \<Rightarrow> string \<Rightarrow> filesystem \<Rightarrow> filesystem" where
  "ofstream_close is_open p bytes fs = (if is_open then AList.update p (File bytes) fs else fs)"

text \<open>A function that opens the stream, writes \<open>bytes\<close> and returns, with nothing in between.\<close>

definition ofstream_write :: "filesystem \<Rightarrow> path \<Rightarrow> string \<Rightarrow> filesystem" where
  "ofstream_write fs p bytes =
     (case ofstream_open fs p of (is_open, fs') \<Rightarrow> ofstream_close is_open p bytes fs')"

text \<open>\<^verbatim>\<open>std::ifstream file_handle(filename)\<close>: the bytes of a regular file, or a failed stream.\<close>

definition ifstream_read :: "filesystem \<Rightarrow> path \<Rightarrow> string option" where
  "ifstream_read fs p = (case status fs p of Some (File bytes) \<Rightarrow> Some bytes | _ \<Rightarrow> None)"

text \<open>
  \<^verbatim>\<open>boost::filesystem::create_directories(p)\<close>, the throwing overload: it returns \<^verbatim>\<open>true\<close> if a
  new directory was created and \<^verbatim>\<open>false\<close> otherwise, that is when \<open>p\<close> is a directory
  already; afterwards \<open>p\<close> and all its ancestors are directories. It throws
  \<^verbatim>\<open>filesystem_error\<close> when the directory cannot be made: for the empty path, and when \<open>p\<close>
  or one of its ancestors is a regular file.
\<close>

definition create_directories :: "filesystem \<Rightarrow> path \<Rightarrow> error + (bool \<times> filesystem)" where
  "create_directories fs p =
     (if is_directory fs p then Inr (False, fs)
      else if p = [] \<or> list_ex (is_regular_file fs) (prefixes p) then Inl filesystem_error
      else Inr (True, fold (\<lambda>q. AList.update q Dir) (tl (prefixes p)) fs))"





section \<open>The cache\<close>

text \<open>
  The template parameters \<^verbatim>\<open>Value\<close> and \<^verbatim>\<open>SerializationPolicy\<close> enter through three
  operations: \<^verbatim>\<open>Serialize(os, v, "xml")\<close> gives the bytes written to the stream,
  \<^verbatim>\<open>Deserialize(is, v, "xml")\<close> updates \<open>v\<close> from a stream (\<open>None\<close> is a stream that could
  not be read), and \<^verbatim>\<open>mapped_type v;\<close> is the default-constructed value. The logging policy
  only writes messages and is left out; the concurrency policy is the default
  \<^verbatim>\<open>NoConcurrencyControl\<close>, whose locks do nothing.
\<close>

record 'v policy =
  Serialize :: "'v \<Rightarrow> string"
  Deserialize :: "string option \<Rightarrow> 'v \<Rightarrow> 'v"
  default_construct :: "'v"

text \<open>
  The members of \<^verbatim>\<open>Cache\<close>: \<^verbatim>\<open>m_cache\<close> is a \<^verbatim>\<open>std::map\<close> from keys to shared pointers, kept
  here as a list of entries in key order, where \<open>None\<close> is \<^verbatim>\<open>nullptr\<close>;
  \<^verbatim>\<open>m_filename_func\<close> gives the file of a key. The field \<open>disk\<close> is the file system the
  cache works on.
\<close>

record ('k, 'v) cache =
  m_cache :: "('k \<times> 'v option) list"
  m_filename_func :: "'k \<Rightarrow> path"
  disk :: filesystem

text \<open>\<^verbatim>\<open>m_cache[k] = e\<close> on the ordered map.\<close>

fun assign :: "'k::linorder \<Rightarrow> 'e \<Rightarrow> ('k \<times> 'e) list \<Rightarrow> ('k \<times> 'e) list" where
  "assign k e [] = [(k, e)]"
| "assign k e (p # ps) =
     (if k < fst p then (k, e) # p # ps
      else if k = fst p then (k, e) # ps
      else p # assign k e ps)"

text \<open>
  \<^verbatim>\<open>m_cache.find(k)\<close> followed by \<^verbatim>\<open>m_cache.erase(iter)\<close> when the key was found. A
  \<^verbatim>\<open>std::map\<close> holds at most one entry for a key; on such a table the function removes that
  one entry (\<open>erase_key_present\<close> below).
\<close>

fun erase_key :: "'k \<Rightarrow> ('k \<times> 'e) list \<Rightarrow> ('k \<times> 'e) list" where
  "erase_key k [] = []"
| "erase_key k (p # ps) = (if fst p = k then erase_key k ps else p # erase_key k ps)"

definition setFilenameFunction :: "('k \<Rightarrow> path) \<Rightarrow> ('k, 'v) cache \<Rightarrow> ('k, 'v) cache" where
  "setFilenameFunction fn_func s = s\<lparr>m_filename_func := fn_func\<rparr>"

definition loadFromDisk :: "'v policy \<Rightarrow> 'k \<Rightarrow> ('k, 'v) cache \<Rightarrow> 'v option" where
  "loadFromDisk P k s =
     (let filename = m_filename_func s k in
      if fs_exists (disk s) filename
      then Some (Deserialize P (ifstream_read (disk s) filename) (default_construct P))
      else None)"

definition writeToDisk :: "'v policy \<Rightarrow> 'k \<Rightarrow> 'v \<Rightarrow> ('k, 'v) cache \<Rightarrow> ('k, 'v) cache" where
  "writeToDisk P k v s =
     (let filename = m_filename_func s k in
      s\<lparr>disk := ofstream_write (disk s) filename (Serialize P v)\<rparr>)"

text \<open>\<^verbatim>\<open>operator[]\<close>: the entry of the table, or what the disk holds, which is then kept.\<close>

definition lookup :: "'v policy \<Rightarrow> 'k::linorder \<Rightarrow> ('k, 'v) cache \<Rightarrow> 'v option \<times> ('k, 'v) cache" where
  "lookup P k s =
     (case map_of (m_cache s) k of
        Some e \<Rightarrow> (e, s)
      | None \<Rightarrow> (let e = loadFromDisk P k s in (e, s\<lparr>m_cache := assign k e (m_cache s)\<rparr>)))"

definition refresh :: "'v policy \<Rightarrow> 'k::linorder \<Rightarrow> ('k, 'v) cache \<Rightarrow> ('k, 'v) cache" where
  "refresh P k s =
     (case map_of (m_cache s) k of
        Some e \<Rightarrow> s\<lparr>m_cache := assign k (loadFromDisk P k s) (m_cache s)\<rparr>
      | None \<Rightarrow> s)"

text \<open>
  \<^verbatim>\<open>create\<close> declares \<^verbatim>\<open>file_handle\<close>, serializes into it and calls \<^verbatim>\<open>refresh(k)\<close> while the
  stream is still open: \<^verbatim>\<open>refresh\<close> finds the file, empty. The bytes of the value are in the
  file when \<^verbatim>\<open>create\<close> has returned.
\<close>

definition create ::
  "'v policy \<Rightarrow> 'k::linorder \<Rightarrow> 'v \<Rightarrow> ('k, 'v) cache \<Rightarrow> error + (bool \<times> ('k, 'v) cache)" where
  "create P k v s =
     (let filename = m_filename_func s k in
      if fs_exists (disk s) filename then Inr (False, s)
      else
        let directory = parent_path filename in
        case create_directories (disk s) directory of
          Inl e \<Rightarrow> Inl e
        | Inr (directoryCreated, d) \<Rightarrow>
            if \<not> directoryCreated then Inr (False, s\<lparr>disk := d\<rparr>)
            else
              (case ofstream_open d filename of
                 (is_open, d') \<Rightarrow>
                   let bytes = Serialize P v;
                       s' = refresh P k (s\<lparr>disk := d'\<rparr>)
                   in Inr (True, s'\<lparr>disk := ofstream_close is_open filename bytes (disk s')\<rparr>)))"

definition erase :: "'k \<Rightarrow> ('k, 'v) cache \<Rightarrow> ('k, 'v) cache" where
  "erase k s = s\<lparr>m_cache := erase_key k (m_cache s)\<rparr>"


text \<open>
  \<^verbatim>\<open>remove\<close>, \<^verbatim>\<open>callUpdateMemFn\<close> and \<^verbatim>\<open>callGetterMemFn\<close> begin with \<^verbatim>\<open>LockEntry(k)\<close>,
  written without \<^verbatim>\<open>this->\<close>, where \<^verbatim>\<open>operator[]\<close>, \<^verbatim>\<open>create\<close> and \<^verbatim>\<open>refresh\<close> write
  \<^verbatim>\<open>this->LockEntry(k)\<close>. \<^verbatim>\<open>LockEntry\<close> is declared in the concurrency policy only, a base
  class that depends on the template parameters. The two-phase name lookup of ISO C++ does not
  look into such a base for an unqualified name: the member cannot be instantiated, and the
  model gives the call the result \<open>Inl (no_member ''LockEntry'')\<close>. A permissive compiler
  (GCC with \<^verbatim>\<open>-fpermissive\<close>, MSVC without \<^verbatim>\<open>/permissive-\<close>) finds the member of the base, and
  the lock of \<^verbatim>\<open>NoConcurrencyControl\<close> does nothing.
\<close>

datatype name_lookup = two_phase | permissive

definition unqualified_base_call :: "name_lookup \<Rightarrow> string \<Rightarrow> error + unit" where
  "unqualified_base_call L name =
     (case L of two_phase \<Rightarrow> Inl (no_member name) | permissive \<Rightarrow> Inr ())"


text \<open>
  \<^verbatim>\<open>callUpdateMemFn\<close> applies a member function to the object the entry points to; the
  object is shared with the table, so the entry holds the updated object afterwards.
\<close>

definition callUpdateMemFn ::
  "name_lookup \<Rightarrow> 'v policy \<Rightarrow> 'k::linorder \<Rightarrow> ('v \<Rightarrow> 'v) \<Rightarrow> ('k, 'v) cache
     \<Rightarrow> error + (bool \<times> ('k, 'v) cache)" where
  "callUpdateMemFn L P k ptr_mem s =
     (case unqualified_base_call L ''LockEntry'' of
        Inl e \<Rightarrow> Inl e
      | Inr key_lock \<Rightarrow>
          (case lookup P k s of
             (None, s') \<Rightarrow> Inr (False, s')
           | (Some v, s') \<Rightarrow>
               Inr (True, s'\<lparr>m_cache := assign k (Some (ptr_mem v)) (m_cache s')\<rparr>)))"

text \<open>\<^verbatim>\<open>callGetterMemFn\<close>; \<open>T_default\<close> is \<^verbatim>\<open>T()\<close>, the default-constructed result.\<close>

definition callGetterMemFn ::
  "name_lookup \<Rightarrow> 'v policy \<Rightarrow> 'k::linorder \<Rightarrow> ('v \<Rightarrow> 't) \<Rightarrow> 't \<Rightarrow> ('k, 'v) cache
     \<Rightarrow> error + ((bool \<times> 't) \<times> ('k, 'v) cache)" where
  "callGetterMemFn L P k ptr_mem T_default s =
     (case unqualified_base_call L ''LockEntry'' of
        Inl e \<Rightarrow> Inl e
      | Inr key_lock \<Rightarrow>
          (case lookup P k s of
             (None, s') \<Rightarrow> Inr ((False, T_default), s')
           | (Some v, s') \<Rightarrow> Inr ((True, ptr_mem v), s')))"

text \<open>The loop of \<^verbatim>\<open>save\<close> over the entries of \<^verbatim>\<open>m_cache\<close>, in key order.\<close>

fun save_entries :: "'v policy \<Rightarrow> ('k \<times> 'v option) list \<Rightarrow> ('k, 'v) cache \<Rightarrow> ('k, 'v) cache" where
  "save_entries P [] s = s"
| "save_entries P (p # ps) s =
     save_entries P ps (case snd p of Some v \<Rightarrow> writeToDisk P (fst p) v s | None \<Rightarrow> s)"

definition save :: "'v policy \<Rightarrow> ('k, 'v) cache \<Rightarrow> ('k, 'v) cache" where
  "save P s = save_entries P (m_cache s) s"

definition forceClear :: "('k, 'v) cache \<Rightarrow> ('k, 'v) cache" where
  "forceClear s = s\<lparr>m_cache := []\<rparr>"

text \<open>
  \<^verbatim>\<open>clear\<close> calls \<^verbatim>\<open>save()\<close> and then \<^verbatim>\<open>this->force_clear()\<close>. Of the members of
  \<^verbatim>\<open>Cache\<close> that take no argument and return nothing, \<^verbatim>\<open>clear\<close> calls \<^verbatim>\<open>save\<close> and could
  call \<^verbatim>\<open>forceClear\<close>; the default policies \<^verbatim>\<open>StdErr\<close>, \<^verbatim>\<open>OstreamOverload\<close> and
  \<^verbatim>\<open>NoConcurrencyControl\<close> add no such member. A call of any other name cannot be compiled;
  the model gives it the result \<open>Inl (no_member name)\<close>.
\<close>

definition this_call :: "'v policy \<Rightarrow> string \<Rightarrow> ('k, 'v) cache \<Rightarrow> error + ('k, 'v) cache" where
  "this_call P name s =
     (if name = ''save'' then Inr (save P s)
      else if name = ''forceClear'' then Inr (forceClear s)
      else Inl (no_member name))"

definition clear :: "'v policy \<Rightarrow> ('k, 'v) cache \<Rightarrow> error + ('k, 'v) cache" where
  "clear P s =
     (case this_call P ''save'' s of
        Inl e \<Rightarrow> Inl e
      | Inr s' \<Rightarrow> this_call P ''force_clear'' s')"

section \<open>What a save writes\<close>

text \<open>
  Two notions for the statements about \<^verbatim>\<open>save\<close>: the files that the loop hands to
  \<^verbatim>\<open>writeToDisk\<close>, one for each entry that is not null, in the order of the loop, each with
  the bytes of its value; and the disk after writing a list of files in order.
\<close>

fun serialized_entries :: "'v policy \<Rightarrow> ('k \<Rightarrow> path) \<Rightarrow> ('k \<times> 'v option) list \<Rightarrow> (path \<times> string) list" where
  "serialized_entries P fn [] = []"
| "serialized_entries P fn (p # ps) =
     (case snd p of Some v \<Rightarrow> [(fn (fst p), Serialize P v)] | None \<Rightarrow> [])
     @ serialized_entries P fn ps"

definition write_files :: "(path \<times> string) list \<Rightarrow> filesystem \<Rightarrow> filesystem" where
  "write_files ws fs = fold (\<lambda>w d. ofstream_write d (fst w) (snd w)) ws fs"

text \<open>The bytes of the entries that are not null and have the file \<open>p\<close>, in key order.\<close>

definition bytes_for ::
  "'v policy \<Rightarrow> ('k \<Rightarrow> path) \<Rightarrow> ('k \<times> 'v option) list \<Rightarrow> path \<Rightarrow> string list" where
  "bytes_for P fn es p = map snd (filter (\<lambda>w. fst w = p) (serialized_entries P fn es))"

section \<open>An instance: string values under decimal keys\<close>

text \<open>
  The cache of the repository's README and demonstration programs: the file of key \<open>i\<close> is
  \<^verbatim>\<open>"data/" + std::to_string(i) + "/value.txt"\<close>, the values are strings, and the
  serialization policy is \<^verbatim>\<open>OstreamOverload\<close>, which writes with \<^verbatim>\<open>os << v\<close> and reads with
  \<^verbatim>\<open>is >> v\<close>: the first word of the stream, and nothing when there is none.
\<close>

definition digit_char :: "nat \<Rightarrow> char" where
  "digit_char d = ''0123456789'' ! d"

function to_string :: "nat \<Rightarrow> string" where
  "to_string n =
     (if n < 10 then [digit_char n] else to_string (n div 10) @ [digit_char (n mod 10)])"
  by pat_completeness auto
termination
  by (relation "measure id") auto

declare to_string.simps [simp del]

definition data_filename :: "nat \<Rightarrow> path" where
  "data_filename i = [''data'', to_string i, ''value.txt'']"

definition is_space :: "char \<Rightarrow> bool" where
  "is_space c \<longleftrightarrow> c \<in> set [CHR '' '', CHR 0x09, CHR 0x0A, CHR 0x0B, CHR 0x0C, CHR 0x0D]"

definition OstreamOverload :: "string policy" where
  "OstreamOverload =
     \<lparr>Serialize = (\<lambda>v. v),
      Deserialize = (\<lambda>is v. case is of
          None \<Rightarrow> v
        | Some bytes \<Rightarrow>
            (let rest = dropWhile is_space bytes in
             if rest = [] then v else takeWhile (\<lambda>c. \<not> is_space c) rest)),
      default_construct = ''''\<rparr>"

text \<open>A disk that holds the value of key 1, and a cache on it that has looked nothing up.\<close>

definition disk_one :: filesystem where
  "disk_one =
     [([''data''], Dir), ([''data'', ''1''], Dir),
      ([''data'', ''1'', ''value.txt''], File ''one'')]"

definition cache_one :: "(nat, string) cache" where
  "cache_one = \<lparr>m_cache = [], m_filename_func = data_filename, disk = disk_one\<rparr>"

text \<open>A disk where the directory of key 1 exists and is empty, and a cache on it.\<close>

definition disk_dir_only :: filesystem where
  "disk_dir_only = [([''data''], Dir), ([''data'', ''1''], Dir)]"

definition cache_dir_only :: "(nat, string) cache" where
  "cache_dir_only = \<lparr>m_cache = [], m_filename_func = data_filename, disk = disk_dir_only\<rparr>"

text \<open>
  A cache that looked key 1 up when the disk held nothing for it, and the same cache after
  \<^verbatim>\<open>create(1, "one")\<close>: the file is written, and the entry holds the empty string that
  \<^verbatim>\<open>refresh\<close> read from the file before the bytes reached it.
\<close>

definition cache_absent :: "(nat, string) cache" where
  "cache_absent =
     \<lparr>m_cache = [(1, None)], m_filename_func = data_filename, disk = [([''data''], Dir)]\<rparr>"

definition cache_created :: "(nat, string) cache" where
  "cache_created = \<lparr>m_cache = [(1, Some [])], m_filename_func = data_filename, disk = disk_one\<rparr>"

text \<open>The cache on \<open>disk_one\<close> after a lookup of key 1.\<close>

definition cache_loaded :: "(nat, string) cache" where
  "cache_loaded = \<lparr>m_cache = [(1, Some ''one'')], m_filename_func = data_filename, disk = disk_one\<rparr>"

text \<open>
  A cache that holds the value of key 1 while the directory of the key is gone from the disk,
  taken away by another program after the value was loaded.
\<close>

definition cache_gone :: "(nat, string) cache" where
  "cache_gone =
     \<lparr>m_cache = [(1, Some ''uno'')], m_filename_func = data_filename, disk = [([''data''], Dir)]\<rparr>"




text \<open>
  The cache on \<open>disk_one\<close> after key 1 was loaded and changed to \<^verbatim>\<open>"uno"\<close> in memory, and key
  2 was looked up and found absent.
\<close>

definition cache_edited :: "(nat, string) cache" where
  "cache_edited =
     \<lparr>m_cache = [(1, Some ''uno''), (2, None)], m_filename_func = data_filename, disk = disk_one\<rparr>"

lemmas instance_defs =
  cache_one_def disk_one_def cache_dir_only_def disk_dir_only_def cache_absent_def
  cache_created_def cache_loaded_def cache_gone_def cache_edited_def data_filename_def to_string.simps digit_char_def
  OstreamOverload_def is_space_def

lemmas fs_defs =
  fs_exists_def status_def is_directory_def is_regular_file_def holds_entries_def
  parent_path_def ifstream_read_def can_open_for_writing_def

section \<open>The table\<close>

lemma map_of_assign: "map_of (assign k e t) = (map_of t)(k \<mapsto> e)"
  by (induction t) (auto simp: fun_eq_iff)

lemma map_of_erase_key: "map_of (erase_key k t) = (map_of t)(k := None)"
  by (induction t) (auto simp: fun_eq_iff)

lemma erase_key_filter: "erase_key k t = filter (\<lambda>p. fst p \<noteq> k) t"
  by (induction t) auto

text \<open>
  The table stays in strict key order, so it holds one entry for a key at most; there
  \<open>erase_key\<close> takes out exactly the entry that \<^verbatim>\<open>find\<close> returns.
\<close>

lemma keys_assign: "fst ` set (assign k e t) = insert k (fst ` set t)"
  by (induction t) auto

lemma sorted_assign:
  "sorted_wrt (<) (map fst t) \<Longrightarrow> sorted_wrt (<) (map fst (assign k e t))"
proof (induction t)
  case Nil
  show ?case by simp
next
  case (Cons p ps)
  have "fst p < x" if "x \<in> fst ` set (assign k e ps)" and "\<not> k < fst p" and "k \<noteq> fst p" for x
    using that Cons.prems by (auto simp: keys_assign)
  with Cons show ?case by auto
qed

lemma sorted_erase_key:
  "sorted_wrt (<) (map fst t) \<Longrightarrow> sorted_wrt (<) (map fst (erase_key k t))"
  by (induction t) (auto simp: erase_key_filter)

lemma erase_key_absent: "map_of t k = None \<Longrightarrow> erase_key k t = t"
  by (induction t) (auto split: if_splits)

lemma erase_key_present:
  "distinct (map fst t) \<Longrightarrow> map_of t k = Some e \<Longrightarrow> erase_key k t = remove1 (k, e) t"
proof (induction t)
  case Nil
  then show ?case by simp
next
  case (Cons p ps)
  show ?case
  proof (cases "fst p = k")
    case True
    with Cons.prems have "map_of ps k = None" and "p = (k, e)"
      by (auto simp: map_of_eq_None_iff)
    then show ?thesis by (simp add: erase_key_absent)
  next
    case False
    with Cons show ?thesis by (cases p) auto
  qed
qed

section \<open>The file system\<close>

lemma map_of_fold_update:
  "map_of (fold (\<lambda>q. AList.update q n) qs fs) x = (if x \<in> set qs then Some n else map_of fs x)"
  by (induction qs arbitrary: fs) (auto simp: update_conv')

lemma set_tl_prefixes: "set (tl (prefixes p)) = {q. q \<noteq> [] \<and> prefix q p}"
  by (cases p) (auto simp: in_set_prefixes prefix_Cons image_iff)

lemma create_directories_True:
  assumes "create_directories fs p = Inr (True, d)"
  shows "p \<noteq> []" and "\<not> is_directory fs p"
    and "map_of d x = (if x \<noteq> [] \<and> prefix x p then Some Dir else map_of fs x)"
  using assms
  by (auto simp: create_directories_def map_of_fold_update set_tl_prefixes split: if_splits)

lemma create_directories_False:
  assumes "create_directories fs p = Inr (False, d)"
  shows "d = fs" and "is_directory fs p"
  using assms by (auto simp: create_directories_def split: if_splits)

lemma map_of_ofstream_write:
  "map_of (ofstream_write fs p bytes) =
     (if can_open_for_writing fs p then (map_of fs)(p \<mapsto> File bytes) else map_of fs)"
  by (simp add: ofstream_write_def ofstream_open_def ofstream_close_def update_conv')

lemma can_open_after_create_directories:
  assumes "\<not> fs_exists fs f" and "create_directories fs (parent_path f) = Inr (True, d)"
  shows "can_open_for_writing d f" and "f \<noteq> []"
proof -
  from create_directories_True(1) [OF assms(2)] have ne: "f \<noteq> []" "butlast f \<noteq> []"
    by (auto simp: parent_path_def)
  have np: "\<not> prefix f (butlast f)"
  proof
    assume "prefix f (butlast f)"
    then have "length f \<le> length (butlast f)" by (rule prefix_length_le)
    with ne(1) show False by (cases f rule: rev_cases) simp_all
  qed
  from create_directories_True(3) [OF assms(2), of f] np assms(1)
  have "map_of d f = None"
    by (simp add: parent_path_def fs_exists_def status_def ne)
  moreover from create_directories_True(3) [OF assms(2), of "butlast f"] ne
  have "map_of d (butlast f) = Some Dir"
    by (simp add: parent_path_def)
  ultimately show "can_open_for_writing d f"
    using ne by (simp add: fs_defs)
  show "f \<noteq> []" by (rule ne)
qed

section \<open>Lookup\<close>



section \<open>Creation\<close>

text \<open>
  Claim C6. When the file of the key exists already, \<^verbatim>\<open>create\<close> returns false and changes
  nothing: the disk, with the content of that file, and the table are the ones before.
\<close>

theorem create_existing_unchanged:
  "fs_exists (disk s) (m_filename_func s k) \<Longrightarrow> create P k v s = Inr (False, s)"
  by (simp add: create_def)

theorem create_existing_unchanged_witness:
  "fs_exists (disk cache_one) (m_filename_func cache_one 1) \<and>
   create OstreamOverload 1 ''uno'' cache_one = Inr (False, cache_one)"
proof -
  have h: "fs_exists (disk cache_one) (m_filename_func cache_one 1)"
    by (simp add: instance_defs fs_defs)
  from create_existing_unchanged [OF h] h show ?thesis by simp
qed

lemma refresh_frame [simp]:
  "disk (refresh P k s) = disk s" "m_filename_func (refresh P k s) = m_filename_func s"
  by (simp_all add: refresh_def split: option.splits)

lemma create_TrueD:
  assumes "create P k v s = Inr (True, s')"
  shows "\<exists>d. \<not> fs_exists (disk s) (m_filename_func s k) \<and>
     create_directories (disk s) (parent_path (m_filename_func s k)) = Inr (True, d) \<and>
     s' = (refresh P k (s\<lparr>disk := AList.update (m_filename_func s k) (File []) d\<rparr>))
            \<lparr>disk := AList.update (m_filename_func s k) (File (Serialize P v)) d\<rparr>"
proof -
  let ?f = "m_filename_func s k"
  from assms have ne: "\<not> fs_exists (disk s) ?f"
    by (auto simp: create_def Let_def split: if_splits)
  with assms obtain d where cd: "create_directories (disk s) (parent_path ?f) = Inr (True, d)"
    by (auto simp: create_def Let_def split: if_splits sum.splits prod.splits)
  from can_open_after_create_directories(1) [OF ne cd]
  have "ofstream_open d ?f = (True, AList.update ?f (File []) d)"
    by (simp add: ofstream_open_def)
  with assms ne cd
  have "s' = (refresh P k (s\<lparr>disk := AList.update ?f (File []) d\<rparr>))
            \<lparr>disk := AList.update ?f (File (Serialize P v)) d\<rparr>"
    by (simp add: create_def Let_def ofstream_close_def)
  with ne cd show ?thesis by blast
qed

lemma create_FalseD:
  assumes "create P k v s = Inr (False, s')"
  shows "s' = s"
  using assms
  by (auto simp: create_def Let_def split: if_splits sum.splits prod.splits
      dest: create_directories_False)

lemma lookup_after_refresh: "fst (lookup P k (refresh P k s)) = loadFromDisk P k s"
  by (auto simp: lookup_def refresh_def map_of_assign loadFromDisk_def Let_def split: option.splits)

text \<open>
  After a \<^verbatim>\<open>create\<close> that returned true, the file of the key holds the bytes of the value. An
  entry that the key had before holds the value read from the empty file, whatever it held;
  a key without entry stays without.
\<close>

lemma file_after_create:
  assumes "create P k v s = Inr (True, s')"
  shows "status (disk s') (m_filename_func s k) = Some (File (Serialize P v))"
    and "m_filename_func s' = m_filename_func s"
proof -
  from create_TrueD [OF assms] obtain d where
    ne: "\<not> fs_exists (disk s) (m_filename_func s k)"
    and cd: "create_directories (disk s) (parent_path (m_filename_func s k)) = Inr (True, d)"
    and s': "s' = (refresh P k (s\<lparr>disk := AList.update (m_filename_func s k) (File []) d\<rparr>))
            \<lparr>disk := AList.update (m_filename_func s k) (File (Serialize P v)) d\<rparr>"
    by blast
  from can_open_after_create_directories(2) [OF ne cd]
  show "status (disk s') (m_filename_func s k) = Some (File (Serialize P v))"
    by (simp add: s' status_def update_conv')
  show "m_filename_func s' = m_filename_func s"
    by (simp add: s')
qed

lemma loadFromDisk_after_create:
  assumes "create P k v s = Inr (True, s')"
  shows "loadFromDisk P k s' = Some (Deserialize P (Some (Serialize P v)) (default_construct P))"
  using file_after_create [OF assms]
  by (simp add: loadFromDisk_def fs_exists_def ifstream_read_def Let_def)

lemma entry_after_create:
  assumes "create P k v s = Inr (True, s')"
  shows "map_of (m_cache s') k =
    (case map_of (m_cache s) k of
       None \<Rightarrow> None
     | Some e \<Rightarrow> Some (Some (Deserialize P (Some []) (default_construct P))))"
proof -
  from create_TrueD [OF assms] obtain d where
    ne: "\<not> fs_exists (disk s) (m_filename_func s k)"
    and cd: "create_directories (disk s) (parent_path (m_filename_func s k)) = Inr (True, d)"
    and s': "s' = (refresh P k (s\<lparr>disk := AList.update (m_filename_func s k) (File []) d\<rparr>))
            \<lparr>disk := AList.update (m_filename_func s k) (File (Serialize P v)) d\<rparr>"
    by blast
  from can_open_after_create_directories(2) [OF ne cd]
  have "loadFromDisk P k (s\<lparr>disk := AList.update (m_filename_func s k) (File []) d\<rparr>)
      = Some (Deserialize P (Some []) (default_construct P))"
    by (simp add: loadFromDisk_def fs_exists_def ifstream_read_def status_def update_conv' Let_def)
  then show ?thesis
    by (simp add: s' refresh_def map_of_assign split: option.splits)
qed

text \<open>
  When the file does not exist, the result of \<^verbatim>\<open>create\<close> is decided by the directory of
  the file: false when it is there already, true, with the file written, when it is missing
  and no regular file stands in the way of making it.
\<close>

lemma create_directory_present:
  assumes "\<not> fs_exists (disk s) (m_filename_func s k)"
    and "is_directory (disk s) (parent_path (m_filename_func s k))"
  shows "create P k v s = Inr (False, s)"
  using assms by (simp add: create_def create_directories_def Let_def)

lemma create_succeeds:
  assumes "\<not> fs_exists (disk s) (m_filename_func s k)"
    and "parent_path (m_filename_func s k) \<noteq> []"
    and "\<not> is_directory (disk s) (parent_path (m_filename_func s k))"
    and "\<not> list_ex (is_regular_file (disk s)) (prefixes (parent_path (m_filename_func s k)))"
  shows "\<exists>s'. create P k v s = Inr (True, s') \<and>
    status (disk s') (m_filename_func s k) = Some (File (Serialize P v))"
proof -
  let ?f = "m_filename_func s k"
  obtain d where cd: "create_directories (disk s) (parent_path ?f) = Inr (True, d)"
    using assms(2-4) by (auto simp: create_directories_def)
  from can_open_after_create_directories(1) [OF assms(1) cd]
  have "ofstream_open d ?f = (True, AList.update ?f (File []) d)"
    by (simp add: ofstream_open_def)
  with assms(1) cd obtain s' where c: "create P k v s = Inr (True, s')"
    by (simp add: create_def Let_def)
  from file_after_create(1) [OF c] c show ?thesis by blast
qed

lemma create_absent_eval: "create OstreamOverload 1 ''one'' cache_absent = Inr (True, cache_created)"
  by (simp add: create_def refresh_def loadFromDisk_def create_directories_def ofstream_open_def
      ofstream_close_def Let_def instance_defs fs_defs)

lemma lookup_created_eval: "fst (lookup OstreamOverload 1 cache_created) = Some []"
  by (simp add: lookup_def cache_created_def)

text \<open>
  Claim C1. The claim is that \<^verbatim>\<open>create\<close>, for a key whose file does not exist, fails only
  when the missing directories cannot be made. The source takes the result of
  \<^verbatim>\<open>create_directories\<close> for "the directory could be made", but the result is false when the
  directory exists already: with the directory of key 1 on the disk and no file in it,
  \<^verbatim>\<open>create(1, "one")\<close> returns false and writes nothing.
\<close>

theorem create_beside_existing_directory:
  "\<not> fs_exists (disk cache_dir_only) (m_filename_func cache_dir_only 1) \<and>
   is_directory (disk cache_dir_only) (parent_path (m_filename_func cache_dir_only 1)) \<and>
   create OstreamOverload 1 ''one'' cache_dir_only = Inr (False, cache_dir_only)"
  by (simp add: create_def create_directories_def Let_def instance_defs fs_defs)

text \<open>
  Claim C7. When \<^verbatim>\<open>create(k, v)\<close> succeeds and the serialization policy reads back \<open>v\<close>
  from the bytes it writes for \<open>v\<close>, then \<^verbatim>\<open>refresh(k)\<close> followed by a lookup of \<open>k\<close>
  returns \<open>v\<close>.
\<close>

theorem create_refresh_lookup_returns_value:
  assumes "create P k v s = Inr (True, s')"
    and "Deserialize P (Some (Serialize P v)) (default_construct P) = v"
  shows "fst (lookup P k (refresh P k s')) = Some v"
  using loadFromDisk_after_create [OF assms(1)] assms(2)
  by (simp add: lookup_after_refresh)

theorem create_refresh_lookup_returns_value_witness:
  "create OstreamOverload 1 ''one'' cache_absent = Inr (True, cache_created) \<and>
   Deserialize OstreamOverload (Some (Serialize OstreamOverload ''one'')) (default_construct OstreamOverload) = ''one'' \<and>
   fst (lookup OstreamOverload 1 cache_created) = Some [] \<and>
   fst (lookup OstreamOverload 1 (refresh OstreamOverload 1 cache_created)) = Some ''one''"
proof -
  have rt: "Deserialize OstreamOverload (Some (Serialize OstreamOverload ''one''))
      (default_construct OstreamOverload) = ''one''"
    by (simp add: OstreamOverload_def is_space_def)
  from create_refresh_lookup_returns_value [OF create_absent_eval rt] create_absent_eval rt
    lookup_created_eval
  show ?thesis by simp
qed

text \<open>
  Claim C3. The claim is that after a \<^verbatim>\<open>create\<close> for a key with a null entry a lookup keeps
  reporting absence until \<^verbatim>\<open>refresh\<close> is called; the comment of \<^verbatim>\<open>refresh\<close> in the source
  says as much, that a call of \<^verbatim>\<open>refresh\<close> after a \<^verbatim>\<open>create\<close> is what replaces the null
  entry. But \<^verbatim>\<open>create\<close> calls \<^verbatim>\<open>refresh(k)\<close> itself, and calls it before the bytes of the
  value have reached the file. For key 1 with a null entry, \<^verbatim>\<open>create(1, "one")\<close> returns
  true and writes \<^verbatim>\<open>"one"\<close> to the file, and leaves an entry that is not null and holds the
  default-constructed value, the empty string: the lookup that follows reports neither
  absence nor \<^verbatim>\<open>"one"\<close>.
\<close>

theorem create_leaves_default_entry:
  "map_of (m_cache cache_absent) 1 = Some None \<and>
   create OstreamOverload 1 ''one'' cache_absent = Inr (True, cache_created) \<and>
   status (disk cache_created) (m_filename_func cache_created 1) = Some (File ''one'') \<and>
   map_of (m_cache cache_created) 1 = Some (Some []) \<and>
   fst (lookup OstreamOverload 1 cache_created) = Some []"
proof -
  have "map_of (m_cache cache_absent) 1 = Some None"
    by (simp add: cache_absent_def)
  moreover have "status (disk cache_created) (m_filename_func cache_created 1) = Some (File ''one'')"
    by (simp add: instance_defs fs_defs)
  moreover have "map_of (m_cache cache_created) 1 = Some (Some [])"
    by (simp add: cache_created_def)
  ultimately show ?thesis
    using create_absent_eval lookup_created_eval by blast
qed

section \<open>Erasing an entry\<close>

text \<open>
  Claim C9. \<^verbatim>\<open>erase(k)\<close> removes the entry of \<open>k\<close> from the table and nothing else: the disk
  and the filename function are the ones before, and every other entry stays. The lookup of
  \<open>k\<close> that follows finds no entry and loads from the disk: it returns what the file of
  \<open>k\<close> holds, the content last saved there, and does not write.
\<close>

theorem erase_memory_only:
  "disk (erase k s) = disk s \<and> m_filename_func (erase k s) = m_filename_func s \<and>
   m_cache (erase k s) = filter (\<lambda>p. fst p \<noteq> k) (m_cache s) \<and>
   map_of (m_cache (erase k s)) = (map_of (m_cache s))(k := None) \<and>
   fst (lookup P k (erase k s)) =
     (if fs_exists (disk s) (m_filename_func s k)
      then Some (Deserialize P (ifstream_read (disk s) (m_filename_func s k)) (default_construct P))
      else None) \<and>
   disk (snd (lookup P k (erase k s))) = disk s"
proof -
  have "map_of (m_cache (erase k s)) k = None"
    by (simp add: erase_def map_of_erase_key)
  then have "lookup P k (erase k s) =
      (loadFromDisk P k (erase k s),
       erase k s\<lparr>m_cache := assign k (loadFromDisk P k (erase k s)) (m_cache (erase k s))\<rparr>)"
    by (simp add: lookup_def Let_def)
  moreover have "loadFromDisk P k (erase k s) =
     (if fs_exists (disk s) (m_filename_func s k)
      then Some (Deserialize P (ifstream_read (disk s) (m_filename_func s k)) (default_construct P))
      else None)"
    by (simp add: loadFromDisk_def erase_def Let_def)
  moreover have "m_cache (erase k s) = filter (\<lambda>p. fst p \<noteq> k) (m_cache s)"
    by (simp add: erase_def erase_key_filter)
  moreover have "map_of (m_cache (erase k s)) = (map_of (m_cache s))(k := None)"
    by (simp add: erase_def map_of_erase_key)
  moreover have "disk (erase k s) = disk s" "m_filename_func (erase k s) = m_filename_func s"
    by (simp_all add: erase_def)
  ultimately show ?thesis by simp
qed

theorem erase_memory_only_witness:
  "m_cache (erase 1 (cache_one\<lparr>m_cache := [(1, Some ''uno''), (2, None)]\<rparr>)) = [(2, None)] \<and>
   disk (erase 1 (cache_one\<lparr>m_cache := [(1, Some ''uno''), (2, None)]\<rparr>)) = disk_one \<and>
   fst (lookup OstreamOverload 1 (erase 1 (cache_one\<lparr>m_cache := [(1, Some ''uno''), (2, None)]\<rparr>)))
     = Some ''one''"
  using erase_memory_only [of 1 "cache_one\<lparr>m_cache := [(1, Some ''uno''), (2, None)]\<rparr>" OstreamOverload]
  by (simp add: instance_defs fs_defs)

section \<open>Saving\<close>

lemma is_directory_ofstream_write:
  "is_directory (ofstream_write fs p bytes) x = is_directory fs x"
  by (auto simp: is_directory_def status_def map_of_ofstream_write can_open_for_writing_def)

lemma can_open_ofstream_write:
  "can_open_for_writing (ofstream_write fs p bytes) q = can_open_for_writing fs q"
  by (simp add: can_open_for_writing_def holds_entries_def is_directory_ofstream_write)

lemma write_files_Cons:
  "write_files (w # ws) fs = write_files ws (ofstream_write fs (fst w) (snd w))"
  by (simp add: write_files_def)

lemma can_open_write_files:
  "can_open_for_writing (write_files ws fs) q = can_open_for_writing fs q"
  by (induction ws arbitrary: fs) (simp_all add: write_files_def can_open_ofstream_write)

lemma map_of_write_files:
  "map_of (write_files ws fs) x =
     (case map_of (rev (filter (\<lambda>w. can_open_for_writing fs (fst w)) ws)) x of
        Some bytes \<Rightarrow> Some (File bytes)
      | None \<Rightarrow> map_of fs x)"
proof (induction ws arbitrary: fs)
  case Nil
  show ?case by (simp add: write_files_def)
next
  case (Cons w ws)
  show ?case
    unfolding write_files_Cons Cons.IH
    by (cases w)
      (auto simp: can_open_ofstream_write map_of_ofstream_write map_add_def split: option.splits)
qed

lemma write_files_twice:
  "map_of (write_files ws (write_files ws fs)) = map_of (write_files ws fs)"
proof
  fix x
  show "map_of (write_files ws (write_files ws fs)) x = map_of (write_files ws fs) x"
    by (simp add: map_of_write_files [of ws "write_files ws fs"] can_open_write_files)
      (simp add: map_of_write_files split: option.splits)
qed

lemma save_entries_writes:
  "save_entries P es s = s\<lparr>disk := write_files (serialized_entries P (m_filename_func s) es) (disk s)\<rparr>"
proof (induction es arbitrary: s)
  case Nil
  show ?case by (simp add: write_files_def)
next
  case (Cons e es)
  show ?case
    by (cases "snd e") (simp_all add: Cons.IH writeToDisk_def write_files_def Let_def)
qed

lemma save_writes:
  "save P s = s\<lparr>disk := write_files (serialized_entries P (m_filename_func s) (m_cache s)) (disk s)\<rparr>"
  by (simp add: save_def save_entries_writes)

lemma set_serialized_entries:
  "set (serialized_entries P fn es) = {(fn k, Serialize P v) | k v. (k, Some v) \<in> set es}"
proof (induction es)
  case Nil
  show ?case by simp
next
  case (Cons e es)
  show ?case
    by (cases e; cases "snd e") (auto simp: Cons.IH)
qed

lemma map_of_single_valued:
  assumes "(p, b) \<in> set L" and "\<And>b'. (p, b') \<in> set L \<Longrightarrow> b' = b"
  shows "map_of L p = Some b"
proof (cases "map_of L p")
  case None
  with assms(1) show ?thesis
    by (metis map_of_eq_None_iff fst_conv image_eqI)
next
  case (Some b')
  then have "(p, b') \<in> set L" by (rule map_of_SomeD)
  with assms(2) Some show ?thesis by simp
qed

lemma map_of_rev_last:
  "map_of (rev L) p =
     (if filter (\<lambda>w. fst w = p) L = [] then None
      else Some (snd (last (filter (\<lambda>w. fst w = p) L))))"
  by (induction L rule: rev_induct) auto

lemma filter_key_guard:
  "filter (\<lambda>w. fst w = p) (filter (\<lambda>w. Q (fst w)) ws) =
     (if Q p then filter (\<lambda>w. fst w = p) ws else [])"
  by (induction ws) auto

lemma set_bytes_for:
  "set (bytes_for P fn es p) = {Serialize P v | k v. (k, Some v) \<in> set es \<and> fn k = p}"
  by (auto simp: bytes_for_def set_serialized_entries image_iff) blast+

lemma save_gone_eval: "disk (save OstreamOverload cache_gone) = disk cache_gone"
  by (simp add: save_def writeToDisk_def ofstream_write_def ofstream_open_def ofstream_close_def
      Let_def instance_defs fs_defs)

text \<open>
  Claim C8, as stated: each \<^verbatim>\<open>save\<close> serializes every entry that is not null to its storage
  location. It fails where the file of an entry cannot be opened: \<^verbatim>\<open>writeToDisk\<close> does not
  test its stream, so the write is lost without a sign. With the value of key 1 in the table
  and the directory of key 1 gone from the disk, \<^verbatim>\<open>save\<close> leaves the disk as it was, and
  there is no file for key 1.
\<close>

theorem save_skips_unopenable_counterexample:
  "(1, Some ''uno'') \<in> set (m_cache cache_gone) \<and>
   disk (save OstreamOverload cache_gone) = disk cache_gone \<and>
   status (disk (save OstreamOverload cache_gone)) (m_filename_func cache_gone 1) = None \<and>
   status (disk (save OstreamOverload cache_gone)) (m_filename_func cache_gone 1)
     \<noteq> Some (File (Serialize OstreamOverload ''uno''))"
proof -
  have a: "(1, Some ''uno'') \<in> set (m_cache cache_gone)"
    by (simp add: cache_gone_def)
  have b: "status (disk (save OstreamOverload cache_gone)) (m_filename_func cache_gone 1) = None"
    unfolding save_gone_eval by (simp add: instance_defs fs_defs)
  then have "status (disk (save OstreamOverload cache_gone)) (m_filename_func cache_gone 1)
     \<noteq> Some (File (Serialize OstreamOverload ''uno''))"
    by simp
  with a b save_gone_eval show ?thesis by blast
qed

text \<open>
  Claim C8, amended. Two calls of \<^verbatim>\<open>save\<close> in a row leave the same storage content as one.
  A \<^verbatim>\<open>save\<close> changes only the disk: it goes through the entries in key order, hands every
  entry that is not null to \<^verbatim>\<open>writeToDisk\<close> and skips the null entries. Afterwards a path
  that can be opened for writing and is the file of an entry that is not null holds the bytes
  of the last such entry in key order, whatever it held before; every other path keeps its
  content, also the file of an entry when it cannot be opened for writing.
\<close>

theorem save_twice_same_storage:
  "map_of (disk (save P (save P s))) = map_of (disk (save P s)) \<and>
   m_cache (save P s) = m_cache s \<and>
   save P s = s\<lparr>disk := write_files (serialized_entries P (m_filename_func s) (m_cache s)) (disk s)\<rparr> \<and>
   set (bytes_for P (m_filename_func s) (m_cache s) p)
     = {Serialize P v | k v. (k, Some v) \<in> set (m_cache s) \<and> m_filename_func s k = p} \<and>
   map_of (disk (save P s)) p =
     (if can_open_for_writing (disk s) p \<and> bytes_for P (m_filename_func s) (m_cache s) p \<noteq> []
      then Some (File (last (bytes_for P (m_filename_func s) (m_cache s) p)))
      else map_of (disk s) p)"
proof -
  let ?ws = "serialized_entries P (m_filename_func s) (m_cache s)"
  let ?bs = "bytes_for P (m_filename_func s) (m_cache s) p"
  have sv: "save P s = s\<lparr>disk := write_files ?ws (disk s)\<rparr>"
    by (rule save_writes)
  have twice: "map_of (disk (save P (save P s))) = map_of (disk (save P s))"
    by (simp add: save_writes write_files_twice)
  have last_write: "map_of (rev (filter (\<lambda>w. can_open_for_writing (disk s) (fst w)) ?ws)) p =
     (if can_open_for_writing (disk s) p \<and> ?bs \<noteq> [] then Some (last ?bs) else None)"
    unfolding map_of_rev_last filter_key_guard by (simp add: bytes_for_def last_map)
  have "map_of (write_files ?ws (disk s)) p =
     (if can_open_for_writing (disk s) p \<and> ?bs \<noteq> [] then Some (File (last ?bs))
      else map_of (disk s) p)"
    unfolding map_of_write_files last_write by simp
  then have content: "map_of (disk (save P s)) p =
     (if can_open_for_writing (disk s) p \<and> ?bs \<noteq> [] then Some (File (last ?bs))
      else map_of (disk s) p)"
    by (simp add: sv)
  have "m_cache (save P s) = m_cache s"
    by (simp add: sv)
  with sv twice content set_bytes_for [of P "m_filename_func s" "m_cache s" p] show ?thesis
    by blast
qed

theorem save_twice_same_storage_witness:
  "map_of (disk (save OstreamOverload (save OstreamOverload cache_edited)))
     = map_of (disk (save OstreamOverload cache_edited)) \<and>
   can_open_for_writing (disk cache_edited) (m_filename_func cache_edited 1) \<and>
   bytes_for OstreamOverload (m_filename_func cache_edited) (m_cache cache_edited)
     (m_filename_func cache_edited 1) = [''uno''] \<and>
   map_of (disk (save OstreamOverload cache_edited)) (m_filename_func cache_edited 1)
     = Some (File ''uno'') \<and>
   bytes_for OstreamOverload (m_filename_func cache_edited) (m_cache cache_edited)
     (m_filename_func cache_edited 2) = [] \<and>
   map_of (disk (save OstreamOverload cache_edited)) (m_filename_func cache_edited 2)
     = map_of (disk cache_edited) (m_filename_func cache_edited 2)"
proof -
  have a: "can_open_for_writing (disk cache_edited) (m_filename_func cache_edited 1)"
    by (simp add: instance_defs fs_defs)
  have b: "bytes_for OstreamOverload (m_filename_func cache_edited) (m_cache cache_edited)
     (m_filename_func cache_edited 1) = [''uno'']"
    by (simp add: bytes_for_def instance_defs)
  have c: "bytes_for OstreamOverload (m_filename_func cache_edited) (m_cache cache_edited)
     (m_filename_func cache_edited 2) = []"
    by (simp add: bytes_for_def instance_defs)
  note one = save_twice_same_storage [of OstreamOverload cache_edited "m_filename_func cache_edited 1"]
  note two = save_twice_same_storage [of OstreamOverload cache_edited "m_filename_func cache_edited 2"]
  from one have 1: "map_of (disk (save OstreamOverload (save OstreamOverload cache_edited)))
     = map_of (disk (save OstreamOverload cache_edited))"
    by blast
  from one have "map_of (disk (save OstreamOverload cache_edited)) (m_filename_func cache_edited 1) =
     (if can_open_for_writing (disk cache_edited) (m_filename_func cache_edited 1) \<and>
         bytes_for OstreamOverload (m_filename_func cache_edited) (m_cache cache_edited)
           (m_filename_func cache_edited 1) \<noteq> []
      then Some (File (last (bytes_for OstreamOverload (m_filename_func cache_edited)
             (m_cache cache_edited) (m_filename_func cache_edited 1))))
      else map_of (disk cache_edited) (m_filename_func cache_edited 1))"
    by blast
  then have 2: "map_of (disk (save OstreamOverload cache_edited)) (m_filename_func cache_edited 1)
     = Some (File ''uno'')"
    unfolding b using a by simp
  from two have "map_of (disk (save OstreamOverload cache_edited)) (m_filename_func cache_edited 2) =
     (if can_open_for_writing (disk cache_edited) (m_filename_func cache_edited 2) \<and>
         bytes_for OstreamOverload (m_filename_func cache_edited) (m_cache cache_edited)
           (m_filename_func cache_edited 2) \<noteq> []
      then Some (File (last (bytes_for OstreamOverload (m_filename_func cache_edited)
             (m_cache cache_edited) (m_filename_func cache_edited 2))))
      else map_of (disk cache_edited) (m_filename_func cache_edited 2))"
    by blast
  then have 3: "map_of (disk (save OstreamOverload cache_edited)) (m_filename_func cache_edited 2)
     = map_of (disk cache_edited) (m_filename_func cache_edited 2)"
    unfolding c by simp
  from 1 a b 2 c 3 show ?thesis by blast
qed

section \<open>Removal\<close>
























section \<open>Member calls\<close>

text \<open>
  Where the compiler finds \<^verbatim>\<open>LockEntry\<close>, both operations go through \<^verbatim>\<open>operator[]\<close>: for a
  key with no entry in the table and no file on the disk they return false, the getter with
  the default-constructed result, and leave a null entry for the key.
\<close>

lemma member_call_memoizes_miss:
  "map_of (m_cache s) k = None \<Longrightarrow> \<not> fs_exists (disk s) (m_filename_func s k) \<Longrightarrow>
   callGetterMemFn permissive P k getter T_default s
     = Inr ((False, T_default), s\<lparr>m_cache := assign k None (m_cache s)\<rparr>) \<and>
   callUpdateMemFn permissive P k updater s
     = Inr (False, s\<lparr>m_cache := assign k None (m_cache s)\<rparr>) \<and>
   map_of (assign k None (m_cache s)) k = Some None"
  by (simp add: callGetterMemFn_def callUpdateMemFn_def unqualified_base_call_def lookup_def
      loadFromDisk_def Let_def map_of_assign)

text \<open>
  Claim C10. The claim is that for a key with no entry in the table and no file on the disk
  \<^verbatim>\<open>callGetterMemFn\<close> returns false with the default-constructed result,
  \<^verbatim>\<open>callUpdateMemFn\<close> returns false, and both leave a null entry for the key. Both members
  begin with \<^verbatim>\<open>LockEntry(k)\<close> without \<^verbatim>\<open>this->\<close>, which the name lookup of ISO C++ does not
  resolve: neither member can be instantiated, for any key and any cache.
\<close>

theorem member_calls_miss_LockEntry:
  "callGetterMemFn two_phase P k getter T_default s = Inl (no_member ''LockEntry'') \<and>
   callUpdateMemFn two_phase P k updater s = Inl (no_member ''LockEntry'')"
  by (simp add: callGetterMemFn_def callUpdateMemFn_def unqualified_base_call_def)

section \<open>Clearing\<close>

text \<open>
  Claim C4. The claim is that \<^verbatim>\<open>clear\<close> saves and then drops every entry of the table. The
  source calls \<^verbatim>\<open>this->force_clear()\<close> after \<^verbatim>\<open>save()\<close>, but the member that empties the
  table is declared as \<^verbatim>\<open>forceClear\<close>, and the class has no member \<^verbatim>\<open>force_clear\<close>: the call
  cannot be resolved, for any cache.
\<close>

theorem clear_calls_missing_member: "clear P s = Inl (no_member ''force_clear'')"
  by (simp add: clear_def this_call_def)

end
